theory Spec2Isabelle
  imports Main
begin

section \<open>Common values\<close>

text \<open>
  A JavaScript \<open>Error\<close> object is modelled by its message. Identifiers and texts are
  strings; instants are integers (seconds or milliseconds since the epoch, as the source
  has them). The numbers of the source are doubles, which compute exactly on the integers
  met here (absolute value below \<open>2 ^ 53\<close>).
\<close>

datatype error = Error string

fun message :: "error \<Rightarrow> string" where
  "message (Error m) = m"

section \<open>StaticDataService\<close>

text \<open>
  The rows that \<open>csv-parse\<close> yields with \<open>columns: true\<close>: one object per line, every
  field a string. A field that is missing reads as the empty string here: each use in the
  source treats \<open>undefined\<close> and \<open>''\<close> alike (\<open>||\<close>, truthiness tests).
\<close>

record stop =
  stop_id :: string
  stop_name :: string
  stop_code :: string
  platform_code :: string
  stop_lat :: string
  stop_lon :: string

record route =
  route_id :: string
  route_short_name :: string
  route_long_name :: string
  route_color :: string
  route_text_color :: string

record trip =
  trip_id :: string
  trip_route_id :: string
  trip_headsign :: string
  direction_id :: string

record stop_time =
  st_trip_id :: string
  st_stop_id :: string
  st_stop_sequence :: string
  st_arrival_time :: string
  st_departure_time :: string

text \<open>
  The four files of the static data directory, as \<open>readFileSync\<close> followed by
  \<open>parse\<close> sees them: the rows, or the exception that either call throws (file absent,
  file malformed).
\<close>

record files =
  stops_txt :: "error + stop list"
  routes_txt :: "error + route list"
  trips_txt :: "error + trip list"
  stop_times_txt :: "error + stop_time list"

record StaticDataService =
  stops :: "string \<rightharpoonup> stop"
  routes :: "string \<rightharpoonup> route"
  trips :: "string \<rightharpoonup> trip"
  stopTimes :: "string \<rightharpoonup> stop_time list"
  initialized :: bool

text \<open>The constructor: four empty maps, not initialized.\<close>

definition new_StaticDataService :: StaticDataService where
  "new_StaticDataService =
     \<lparr>stops = Map.empty, routes = Map.empty, trips = Map.empty,
      stopTimes = Map.empty, initialized = False\<rparr>"

text \<open>\<open>rows.forEach(r => map.set(r.key, r))\<close>: a later row replaces an earlier one.\<close>

definition set_all :: "('a \<Rightarrow> string) \<Rightarrow> 'a list \<Rightarrow> (string \<rightharpoonup> 'a) \<Rightarrow> (string \<rightharpoonup> 'a)" where
  "set_all key rows m = foldl (\<lambda>acc r. acc(key r \<mapsto> r)) m rows"

text \<open>The loop over \<open>stop_times.txt\<close>: each row is pushed on the list of its trip.\<close>

definition push_all :: "stop_time list \<Rightarrow> (string \<rightharpoonup> stop_time list) \<Rightarrow> (string \<rightharpoonup> stop_time list)" where
  "push_all rows m =
     foldl (\<lambda>acc r. acc(st_trip_id r \<mapsto> (case acc (st_trip_id r) of None \<Rightarrow> [] | Some l \<Rightarrow> l) @ [r]))
       m rows"

text \<open>
  \<open>load()\<close> mutates the maps file by file and rethrows the first exception. The result is
  the exception thrown, if any, and the service as the call leaves it: what was written
  before the exception stays written.
\<close>

definition load :: "files \<Rightarrow> StaticDataService \<Rightarrow> error option \<times> StaticDataService" where
  "load fs s =
     (if initialized s then (None, s)
      else case stops_txt fs of
        Inl e \<Rightarrow> (Some e, s)
      | Inr stop_rows \<Rightarrow>
          let s1 = s\<lparr>stops := set_all stop_id stop_rows (stops s)\<rparr> in
          (case routes_txt fs of
             Inl e \<Rightarrow> (Some e, s1)
           | Inr route_rows \<Rightarrow>
               let s2 = s1\<lparr>routes := set_all route_id route_rows (routes s1)\<rparr> in
               (case trips_txt fs of
                  Inl e \<Rightarrow> (Some e, s2)
                | Inr trip_rows \<Rightarrow>
                    let s3 = s2\<lparr>trips := set_all trip_id trip_rows (trips s2)\<rparr> in
                    (case stop_times_txt fs of
                       Inl e \<Rightarrow> (Some e, s3)
                     | Inr st_rows \<Rightarrow>
                         (None, s3\<lparr>stopTimes := push_all st_rows (stopTimes s3),
                                   initialized := True\<rparr>)))))"

text \<open>\<open>reload()\<close>: clear the four maps, reset the flag, load.\<close>

definition reload :: "files \<Rightarrow> StaticDataService \<Rightarrow> error option \<times> StaticDataService" where
  "reload fs s =
     load fs (s\<lparr>stops := Map.empty, routes := Map.empty, trips := Map.empty,
                stopTimes := Map.empty, initialized := False\<rparr>)"

definition getStop :: "StaticDataService \<Rightarrow> string \<Rightarrow> stop option" where
  "getStop s stopId = stops s stopId"

definition getRoute :: "StaticDataService \<Rightarrow> string \<Rightarrow> route option" where
  "getRoute s routeId = routes s routeId"

definition getTrip :: "StaticDataService \<Rightarrow> string \<Rightarrow> trip option" where
  "getTrip s tripId = trips s tripId"

text \<open>A dataset of one stop, one route, one trip with one stop time, and the same
  directory after \<open>stops.txt\<close> has been removed.\<close>

definition montgomery :: stop where
  "montgomery = \<lparr>stop_id = ''M20-2'', stop_name = ''Montgomery St.'', stop_code = ''MONT'',
     platform_code = ''2'', stop_lat = ''37.789'', stop_lon = ''-122.401''\<rparr>"

definition yellow_s :: route where
  "yellow_s = \<lparr>route_id = ''1'', route_short_name = ''Yellow-S'',
     route_long_name = ''Antioch to SFO/Millbrae'', route_color = ''FFFF33'',
     route_text_color = ''000000''\<rparr>"

definition trip_100 :: trip where
  "trip_100 = \<lparr>trip_id = ''100'', trip_route_id = ''1'',
     trip_headsign = ''SFO/Millbrae'', direction_id = ''0''\<rparr>"

definition stop_time_100 :: stop_time where
  "stop_time_100 = \<lparr>st_trip_id = ''100'', st_stop_id = ''M20-2'', st_stop_sequence = ''1'',
     st_arrival_time = ''08:00:00'', st_departure_time = ''08:00:30''\<rparr>"

definition good_files :: files where
  "good_files = \<lparr>stops_txt = Inr [montgomery], routes_txt = Inr [yellow_s],
     trips_txt = Inr [trip_100], stop_times_txt = Inr [stop_time_100]\<rparr>"

definition files_without_stops :: files where
  "files_without_stops = good_files\<lparr>stops_txt := Inl (Error ''ENOENT: no such file or directory'')\<rparr>"

definition loaded_service :: StaticDataService where
  "loaded_service = snd (load good_files new_StaticDataService)"

section \<open>Printing numbers\<close>

text \<open>A template literal prints an integer in decimal.\<close>

definition digit_char :: "nat \<Rightarrow> char" where
  "digit_char d = ''0123456789'' ! d"

fun show_nat :: "nat \<Rightarrow> string" where
  "show_nat n = (if n < 10 then [digit_char n] else show_nat (n div 10) @ [digit_char (n mod 10)])"

declare show_nat.simps [simp del]

definition show_int :: "int \<Rightarrow> string" where
  "show_int i = (if i < 0 then CHR ''-'' # show_nat (nat (- i)) else show_nat (nat i))"

section \<open>The decoded real-time feed\<close>

text \<open>
  The object model that \<open>FeedMessage.decode\<close> returns, with the fields the source reads.
  An optional message or array that is absent is \<open>None\<close>. A 64-bit field (the time of
  a stop time event, the bounds of an active period) is decoded to a \<open>Long\<close> object: the
  field of a message that is present is always an object, hence truthy, and it holds
  zero when the field was not sent. A 32-bit field (the delay) is a number, \<open>0\<close> when it
  was not sent, and \<open>0\<close> is falsy. In the records \<open>None\<close> stands for a field that was
  not sent. A string field that is absent reads as \<open>''\<close>.
\<close>

record StopTimeEvent =
  ste_time :: "int option"
  ste_delay :: "int option"

record StopTimeUpdate =
  stu_stopId :: string
  arrival :: "StopTimeEvent option"
  departure :: "StopTimeEvent option"

record Vehicle =
  v_occupancyStatus :: "nat option"
  v_label :: string

record TripUpdate =
  tu_tripId :: string
  tu_vehicle :: "Vehicle option"
  stopTimeUpdate :: "StopTimeUpdate list option"

text \<open>
  A translated string is the list of the texts of its translations, \<open>None\<close> when the
  string or its \<open>translation\<close> array is absent; an informed entity is its \<open>stopId\<close>; an
  active period is its \<open>start\<close> and \<open>end\<close>.
\<close>

record Alert =
  informedEntity :: "string list option"
  headerText :: "string list option"
  descriptionText :: "string list option"
  url :: "string list option"
  activePeriod :: "(int option \<times> int option) list option"

record FeedEntity =
  tripUpdate :: "TripUpdate option"
  vehicle :: "Vehicle option"
  alert :: "Alert option"

record FeedMessage =
  entity :: "FeedEntity list"

section \<open>GtfsMonitor\<close>

record Stats =
  tripUpdates :: nat
  tripErrors :: nat
  alertUpdates :: nat
  alertErrors :: nat

record GtfsMonitor =
  tripsFeed :: "FeedMessage option"
  alertsFeed :: "FeedMessage option"
  lastTripsUpdate :: "int option"
  lastAlertsUpdate :: "int option"
  tripsError :: "error option"
  alertsError :: "error option"
  isPolling :: bool
  stats :: Stats

definition new_GtfsMonitor :: GtfsMonitor where
  "new_GtfsMonitor =
     \<lparr>tripsFeed = None, alertsFeed = None, lastTripsUpdate = None, lastAlertsUpdate = None,
      tripsError = None, alertsError = None, isPolling = False,
      stats = \<lparr>tripUpdates = 0, tripErrors = 0, alertUpdates = 0, alertErrors = 0\<rparr>\<rparr>"

subsection \<open>One attempt\<close>

text \<open>
  What the network does in one attempt is an input of the model. A promise settles after
  so many milliseconds with a value, or stays pending for ever.
\<close>

datatype 'a settles = After nat 'a | Never

record response =
  ok :: bool
  status :: nat
  statusText :: string

text \<open>
  \<open>fetch_result\<close>: what \<open>await fetch(url, {signal})\<close> would do if the signal never
  aborted: resolve with the response (its head has arrived) or reject.
  \<open>body_result\<close>: what \<open>await response.arrayBuffer()\<close> followed by \<open>decode\<close> does for
  that response: the decoded feed, or the exception of either.
\<close>

record attempt =
  fetch_result :: "(error + response) settles"
  body_result :: "(error + FeedMessage) settles"

definition abort_timeout :: nat where
  "abort_timeout = 10000"

definition abort_error :: error where
  "abort_error = Error ''This operation was aborted''"

definition http_error :: "response \<Rightarrow> error" where
  "http_error r = Error (''HTTP '' @ show_nat (status r) @ '': '' @ statusText r)"

text \<open>
  The body of the \<open>try\<close> block. The timer aborts the pending \<open>fetch\<close> at
  \<open>abort_timeout\<close>; once \<open>fetch\<close> has resolved, \<open>clearTimeout\<close> removes the timer, and
  the read of the body runs with no timer armed. The result is the time the attempt took
  and the feed returned or the exception caught; \<open>None\<close> when the attempt never settles.
\<close>

definition run_attempt :: "attempt \<Rightarrow> (nat \<times> (error + FeedMessage)) option" where
  "run_attempt a =
     (case fetch_result a of
        Never \<Rightarrow> Some (abort_timeout, Inl abort_error)
      | After t r \<Rightarrow>
          if abort_timeout \<le> t then Some (abort_timeout, Inl abort_error)
          else (case r of
                  Inl e \<Rightarrow> Some (t, Inl e)
                | Inr resp \<Rightarrow>
                    if \<not> ok resp then Some (t, Inl (http_error resp))
                    else (case body_result a of
                            Never \<Rightarrow> None
                          | After t' r' \<Rightarrow> Some (t + t', r'))))"

subsection \<open>fetchFeed\<close>

datatype event = Attempt nat nat | Wait nat

definition retries :: nat where
  "retries = 3"

text \<open>
  The \<open>for\<close> loop from \<open>attempt\<close> on, with the value of \<open>lastError\<close> and the events so
  far: \<open>Attempt n t\<close> for attempt \<open>n\<close> that took \<open>t\<close> ms, \<open>Wait d\<close> for a backoff of
  \<open>d\<close> ms. The result is \<open>None\<close> when an attempt never settles; otherwise the events and
  the feed returned or the value thrown (\<open>lastError\<close>, which is \<open>null\<close> before the first
  failure).
\<close>

function fetchFeed_from ::
  "(nat \<Rightarrow> attempt) \<Rightarrow> nat \<Rightarrow> error option \<Rightarrow> event list
     \<Rightarrow> (event list \<times> (error option + FeedMessage)) option" where
  "fetchFeed_from env n lastError evs =
     (if n \<le> retries then
        (case run_attempt (env n) of
           None \<Rightarrow> None
         | Some (t, Inr feed) \<Rightarrow> Some (evs @ [Attempt n t], Inr feed)
         | Some (t, Inl e) \<Rightarrow>
             fetchFeed_from env (n + 1) (Some e)
               (evs @ [Attempt n t] @ (if n \<noteq> retries then [Wait (1000 * 2 ^ (n - 1))] else [])))
      else Some (evs, Inl lastError))"
  by pat_completeness auto
termination
  by (relation "measure (\<lambda>(env, n, lastError, evs). Suc retries - n)") auto

declare fetchFeed_from.simps [simp del]

definition fetchFeed :: "(nat \<Rightarrow> attempt) \<Rightarrow> (event list \<times> (error option + FeedMessage)) option" where
  "fetchFeed env = fetchFeed_from env 1 None []"

subsection \<open>The two refreshes\<close>

text \<open>
  \<open>now\<close> is the value of \<open>new Date()\<close> when the fetch has returned. The result is
  \<open>None\<close> when \<open>fetchFeed\<close> never returns.
\<close>

definition updateTrips :: "(nat \<Rightarrow> attempt) \<Rightarrow> int \<Rightarrow> GtfsMonitor \<Rightarrow> GtfsMonitor option" where
  "updateTrips env now m =
     (case fetchFeed env of
        None \<Rightarrow> None
      | Some (evs, Inr feed) \<Rightarrow>
          Some (m\<lparr>tripsFeed := Some feed, lastTripsUpdate := Some now, tripsError := None,
                  stats := (stats m)\<lparr>tripUpdates := tripUpdates (stats m) + 1\<rparr>\<rparr>)
      | Some (evs, Inl e) \<Rightarrow>
          Some (m\<lparr>tripsError := e,
                  stats := (stats m)\<lparr>tripErrors := tripErrors (stats m) + 1\<rparr>\<rparr>))"

definition updateAlerts :: "(nat \<Rightarrow> attempt) \<Rightarrow> int \<Rightarrow> GtfsMonitor \<Rightarrow> GtfsMonitor option" where
  "updateAlerts env now m =
     (case fetchFeed env of
        None \<Rightarrow> None
      | Some (evs, Inr feed) \<Rightarrow>
          Some (m\<lparr>alertsFeed := Some feed, lastAlertsUpdate := Some now, alertsError := None,
                  stats := (stats m)\<lparr>alertUpdates := alertUpdates (stats m) + 1\<rparr>\<rparr>)
      | Some (evs, Inl e) \<Rightarrow>
          Some (m\<lparr>alertsError := e,
                  stats := (stats m)\<lparr>alertErrors := alertErrors (stats m) + 1\<rparr>\<rparr>))"

definition getTrips :: "GtfsMonitor \<Rightarrow> FeedMessage option" where
  "getTrips m = (case tripsFeed m of None \<Rightarrow> None | Some f \<Rightarrow> Some f)"

definition getAlerts :: "GtfsMonitor \<Rightarrow> FeedMessage option" where
  "getAlerts m = alertsFeed m"

record FeedStatus =
  lastUpdate :: "int option"
  hasData :: bool
  status_error :: "string option"

record Status =
  status_trips :: FeedStatus
  status_alerts :: FeedStatus
  status_stats :: Stats

definition getStatus :: "GtfsMonitor \<Rightarrow> Status" where
  "getStatus m =
     \<lparr>status_trips = \<lparr>lastUpdate = lastTripsUpdate m, hasData = (tripsFeed m \<noteq> None),
         status_error = map_option message (tripsError m)\<rparr>,
      status_alerts = \<lparr>lastUpdate = lastAlertsUpdate m, hasData = (alertsFeed m \<noteq> None),
         status_error = map_option message (alertsError m)\<rparr>,
      status_stats = stats m\<rparr>"

text \<open>Three kinds of attempt: the server answers 503 at once; the server answers 200 and
  the body arrives after a minute; the server answers 200 and the body never ends.\<close>

definition empty_feed :: FeedMessage where
  "empty_feed = \<lparr>entity = []\<rparr>"

definition unavailable_503 :: attempt where
  "unavailable_503 =
     \<lparr>fetch_result = After 40 (Inr \<lparr>ok = False, status = 503, statusText = ''Service Unavailable''\<rparr>),
      body_result = Never\<rparr>"

definition slow_body :: attempt where
  "slow_body =
     \<lparr>fetch_result = After 5 (Inr \<lparr>ok = True, status = 200, statusText = ''OK''\<rparr>),
      body_result = After 60000 (Inr empty_feed)\<rparr>"

definition stalled_body :: attempt where
  "stalled_body =
     \<lparr>fetch_result = After 5 (Inr \<lparr>ok = True, status = 200, statusText = ''OK''\<rparr>),
      body_result = Never\<rparr>"

definition healthy_monitor :: GtfsMonitor where
  "healthy_monitor =
     new_GtfsMonitor\<lparr>tripsFeed := Some empty_feed, lastTripsUpdate := Some 1700000000000,
       alertsFeed := Some empty_feed, lastAlertsUpdate := Some 1700000000000, isPolling := True,
       stats := \<lparr>tripUpdates = 7, tripErrors = 2, alertUpdates = 4, alertErrors = 1\<rparr>\<rparr>"

section \<open>JavaScript helpers\<close>

text \<open>
  \<open>Math.round(a / b)\<close> for integers \<open>a\<close> and \<open>b > 0\<close>: the nearest integer, a half
  rounded up. \<open>Math.floor(a / b)\<close> is \<open>a div b\<close>.
\<close>

definition js_round_div :: "int \<Rightarrow> int \<Rightarrow> int" where
  "js_round_div a b = (2 * a + b) div (2 * b)"

text \<open>
  \<open>new Date(ms).toISOString()\<close> throws a \<open>RangeError\<close> outside the range of dates.
  An ISO string is modelled by the instant it prints, in milliseconds: the printing is
  one-to-one on the range, and \<open>new Date(iso)\<close> reads the instant back.
\<close>

definition max_date_ms :: int where
  "max_date_ms = 8640000000000000"

definition toISOString :: "int \<Rightarrow> error + int" where
  "toISOString ms =
     (if - max_date_ms \<le> ms \<and> ms \<le> max_date_ms then Inr ms
      else Inl (Error ''Invalid time value''))"

text \<open>Truthiness of a number that may be absent, and \<open>x || y\<close> on such numbers.\<close>

definition truthy :: "int option \<Rightarrow> bool" where
  "truthy v = (case v of None \<Rightarrow> False | Some n \<Rightarrow> n \<noteq> 0)"

definition or_else :: "int option \<Rightarrow> int option \<Rightarrow> int option" where
  "or_else x y = (if truthy x then x else y)"

text \<open>\<open>x || y\<close> on \<open>Long\<close> objects that may be \<open>undefined\<close>: an object is truthy
  whatever it holds.\<close>

definition long_or :: "int option \<Rightarrow> int option \<Rightarrow> int option" where
  "long_or x y = (case x of Some n \<Rightarrow> Some n | None \<Rightarrow> y)"

text \<open>
  \<open>toLowerCase\<close> on the characters a \<open>char\<close> can hold (Latin-1): the letters \<open>A\<close> to
  \<open>Z\<close> and the accented capitals move 32 places up.
\<close>

definition lower_char :: "char \<Rightarrow> char" where
  "lower_char c =
     (let n = (of_char c :: nat)
      in if (65 \<le> n \<and> n \<le> 90) \<or> (192 \<le> n \<and> n \<le> 222 \<and> n \<noteq> 215) then char_of (n + 32) else c)"

definition toLowerCase :: "string \<Rightarrow> string" where
  "toLowerCase s = map lower_char s"

text \<open>\<open>s.includes(sub)\<close>: \<open>sub\<close> occurs in \<open>s\<close> at some position.\<close>

fun str_includes :: "string \<Rightarrow> string \<Rightarrow> bool" where
  "str_includes [] sub = (sub = [])"
| "str_includes (c # cs) sub = (take (length sub) (c # cs) = sub \<or> str_includes cs sub)"

text \<open>
  \<open>s.split(sep)\<close> for a separator that is not empty: scan from the left, cut at each
  occurrence, resume after it. \<open>acc\<close> holds the current part, reversed.
\<close>

fun split_from :: "string \<Rightarrow> string \<Rightarrow> string \<Rightarrow> string list" where
  "split_from sep acc [] = [rev acc]"
| "split_from sep acc (c # cs) =
     (if sep \<noteq> [] \<and> take (length sep) (c # cs) = sep
      then rev acc # split_from sep [] (drop (length sep) (c # cs))
      else split_from sep (c # acc) cs)"

definition split :: "string \<Rightarrow> string \<Rightarrow> string list" where
  "split s sep = split_from sep [] s"

text \<open>\<open>xs.slice(0, limit)\<close>: a negative \<open>limit\<close> counts from the end.\<close>

definition slice0 :: "int \<Rightarrow> 'a list \<Rightarrow> 'a list" where
  "slice0 limit xs =
     (if limit < 0 then take (nat (int (length xs) + limit)) xs else take (nat limit) xs)"

text \<open>A \<open>forEach\<close> whose body pushes items on one list and may throw; a \<open>map\<close> whose
  function may throw. The first exception ends the loop.\<close>

fun forEach_push :: "('a \<Rightarrow> error + 'b list) \<Rightarrow> 'a list \<Rightarrow> error + 'b list" where
  "forEach_push f [] = Inr []"
| "forEach_push f (x # xs) =
     (case f x of
        Inl e \<Rightarrow> Inl e
      | Inr ys \<Rightarrow> (case forEach_push f xs of Inl e \<Rightarrow> Inl e | Inr zs \<Rightarrow> Inr (ys @ zs)))"

fun map_throwing :: "('a \<Rightarrow> error + 'b) \<Rightarrow> 'a list \<Rightarrow> error + 'b list" where
  "map_throwing f [] = Inr []"
| "map_throwing f (x # xs) =
     (case f x of
        Inl e \<Rightarrow> Inl e
      | Inr y \<Rightarrow> (case map_throwing f xs of Inl e \<Rightarrow> Inl e | Inr ys \<Rightarrow> Inr (y # ys)))"

section \<open>TransitService\<close>

record TripInfo =
  tripId :: string
  routeId :: string
  routeName :: string
  routeLongName :: string
  headsign :: string
  direction :: string
  scheduledArrival :: int
  estimatedArrival :: int
  minutesUntilArrival :: int
  delay :: int
  routeColor :: "string option"
  routeTextColor :: "string option"
  occupancyStatus :: "nat option"
  vehicleLabel :: "string option"

record StopOut =
  out_id :: string
  out_name :: string
  out_code :: string
  out_platform :: string
  out_lat :: string
  out_lon :: string

record AlertOut =
  out_header :: string
  out_description :: string
  out_url :: "string option"
  out_activePeriod :: "(int option \<times> int option) list"

record StopInfo =
  si_stop :: StopOut
  upcomingTrips :: "TripInfo list"
  alerts :: "AlertOut list"
  warnings :: "string list"
  lastUpdated :: int

subsection \<open>_processTrips\<close>

text \<open>
  \<open>arrival?.time\<close>: \<open>undefined\<close> when the event is absent, otherwise the \<open>Long\<close>
  of the event, which holds zero when no time was sent. \<open>arrival?.delay\<close>: the number
  of the event, absent or \<open>0\<close> when no delay was sent.
\<close>

definition event_time :: "StopTimeEvent option \<Rightarrow> int option" where
  "event_time ev =
     (case ev of None \<Rightarrow> None | Some x \<Rightarrow> Some (case ste_time x of None \<Rightarrow> 0 | Some t \<Rightarrow> t))"

definition event_delay :: "StopTimeEvent option \<Rightarrow> int option" where
  "event_delay ev = (case ev of None \<Rightarrow> None | Some x \<Rightarrow> ste_delay x)"

text \<open>
  The object \<open>tripInfo\<close>, with the two fields that are added when the vehicle has
  them. \<open>scheduled\<close> and \<open>estimated\<close> are the two ISO strings.
\<close>

definition tripInfo_of ::
  "int \<Rightarrow> string \<Rightarrow> trip \<Rightarrow> route option \<Rightarrow> Vehicle option \<Rightarrow> int \<Rightarrow> int \<Rightarrow> int \<Rightarrow> int
     \<Rightarrow> TripInfo" where
  "tripInfo_of now tid trp rt veh timeNum dly scheduled estimated =
     \<lparr>tripId = tid,
      routeId = trip_route_id trp,
      routeName =
        (case rt of
           None \<Rightarrow> trip_route_id trp
         | Some r \<Rightarrow> if route_short_name r \<noteq> [] then route_short_name r else trip_route_id trp),
      routeLongName = (case rt of None \<Rightarrow> [] | Some r \<Rightarrow> route_long_name r),
      headsign = trip_headsign trp,
      direction = (if direction_id trp = ''0'' then ''outbound'' else ''inbound''),
      scheduledArrival = scheduled,
      estimatedArrival = estimated,
      minutesUntilArrival = js_round_div (timeNum - now) 60,
      delay = dly,
      routeColor =
        (case rt of
           None \<Rightarrow> None
         | Some r \<Rightarrow> if route_color r \<noteq> [] then Some (CHR ''#'' # route_color r) else None),
      routeTextColor =
        (case rt of
           None \<Rightarrow> None
         | Some r \<Rightarrow>
             if route_text_color r \<noteq> [] then Some (CHR ''#'' # route_text_color r) else None),
      occupancyStatus = (case veh of None \<Rightarrow> None | Some v \<Rightarrow> v_occupancyStatus v),
      vehicleLabel =
        (case veh of None \<Rightarrow> None | Some v \<Rightarrow> if v_label v \<noteq> [] then Some (v_label v) else None)\<rparr>"

text \<open>
  The body of the inner \<open>forEach\<close>, for one stop time update of a trip that has resolved:
  the predictions it pushes (one or none), or the exception of \<open>toISOString\<close>. \<open>now\<close> is
  in seconds.
\<close>

definition stopTimeUpdate_body ::
  "int \<Rightarrow> string \<Rightarrow> string \<Rightarrow> trip \<Rightarrow> route option \<Rightarrow> Vehicle option \<Rightarrow> StopTimeUpdate
     \<Rightarrow> error + TripInfo list" where
  "stopTimeUpdate_body now stopId tid trp rt veh stu =
     (if stu_stopId stu = stopId then
        (if arrival stu \<noteq> None \<or> departure stu \<noteq> None then
           (let time = long_or (event_time (arrival stu)) (event_time (departure stu));
                dly = (case or_else (or_else (event_delay (arrival stu)) (event_delay (departure stu)))
                              (Some 0) of
                         None \<Rightarrow> 0 | Some d \<Rightarrow> d)
            in case time of
                 None \<Rightarrow> Inr []
               | Some timeNum \<Rightarrow>
                   if timeNum > now then
                     (let scheduledTime = timeNum - dly
                      in case toISOString (scheduledTime * 1000) of
                           Inl e \<Rightarrow> Inl e
                         | Inr scheduled \<Rightarrow>
                             (case toISOString (timeNum * 1000) of
                                Inl e \<Rightarrow> Inl e
                              | Inr estimated \<Rightarrow>
                                  Inr [tripInfo_of now tid trp rt veh timeNum dly scheduled estimated]))
                   else Inr [])
         else Inr [])
      else Inr [])"

text \<open>The body of the outer \<open>forEach\<close>, for one entity of the feed.\<close>

definition entity_body :: "StaticDataService \<Rightarrow> int \<Rightarrow> string \<Rightarrow> FeedEntity \<Rightarrow> error + TripInfo list" where
  "entity_body sds now stopId ent =
     (case tripUpdate ent of
        None \<Rightarrow> Inr []
      | Some tu \<Rightarrow>
          if tu_tripId tu = [] then Inr []
          else (case getTrip sds (tu_tripId tu) of
                  None \<Rightarrow> Inr []
                | Some trp \<Rightarrow>
                    (let rt = getRoute sds (trip_route_id trp);
                         veh = (case tu_vehicle tu of Some v \<Rightarrow> Some v | None \<Rightarrow> vehicle ent)
                     in case stopTimeUpdate tu of
                          None \<Rightarrow> Inr []
                        | Some stus \<Rightarrow>
                            forEach_push (stopTimeUpdate_body now stopId (tu_tripId tu) trp rt veh) stus)))"

text \<open>\<open>_processTrips\<close>: the predictions pushed on \<open>stopInfo.upcomingTrips\<close> (empty
  before the call), or the exception. \<open>now_ms\<close> is the value of \<open>Date.now()\<close>.\<close>

definition processTrips :: "StaticDataService \<Rightarrow> int \<Rightarrow> FeedMessage \<Rightarrow> string \<Rightarrow> error + TripInfo list" where
  "processTrips sds now_ms feed stopId =
     forEach_push (entity_body sds (now_ms div 1000) stopId) (entity feed)"

subsection \<open>_sortAndFilterTrips\<close>

text \<open>The callback of \<open>filter\<close>, for a direction that is truthy.\<close>

definition direction_filter :: "string \<Rightarrow> TripInfo \<Rightarrow> bool" where
  "direction_filter dirn t =
     (let rn = toLowerCase (routeName t);
          hs = toLowerCase (headsign t);
          dir = toLowerCase dirn
      in if dir = ''eastbound'' then
           str_includes rn ''n'' \<or> str_includes hs ''antioch'' \<or> str_includes hs ''berryessa''
           \<or> str_includes hs ''dublin'' \<or> str_includes hs ''pittsburg''
         else if dir = ''westbound'' then
           str_includes rn ''s'' \<or> str_includes hs ''millbrae'' \<or> str_includes hs ''sfo''
           \<or> str_includes hs ''daly city'' \<or> str_includes hs ''richmond''
         else True)"

text \<open>
  \<open>Array.prototype.sort\<close> is stable, and the comparator is the difference of the two
  instants: the result is the stable sort by \<open>estimatedArrival\<close>. A direction that is
  \<open>null\<close>, \<open>undefined\<close> or \<open>''\<close> is falsy.
\<close>

definition sortAndFilterTrips :: "TripInfo list \<Rightarrow> string option \<Rightarrow> TripInfo list" where
  "sortAndFilterTrips ts dirn =
     (let sorted_ts = sort_key estimatedArrival ts
      in case dirn of
           None \<Rightarrow> sorted_ts
         | Some d \<Rightarrow> if d = [] then sorted_ts else filter (direction_filter d) sorted_ts)"

subsection \<open>_processAlerts\<close>

text \<open>\<open>x?.translation?.[0]?.text\<close>, with \<open>''\<close> for \<open>undefined\<close>.\<close>

definition first_text :: "string list option \<Rightarrow> string" where
  "first_text ts = (case ts of None \<Rightarrow> [] | Some [] \<Rightarrow> [] | Some (t # _) \<Rightarrow> t)"

text \<open>\<open>ap.start ? new Date(Number(ap.start) * 1000).toISOString() : null\<close>: the bound is
  a \<open>Long\<close>, truthy also when it holds zero because no bound was sent.\<close>

definition period_bound :: "int option \<Rightarrow> error + int option" where
  "period_bound b =
     (case toISOString ((case b of None \<Rightarrow> 0 | Some n \<Rightarrow> n) * 1000) of
        Inl e \<Rightarrow> Inl e
      | Inr i \<Rightarrow> Inr (Some i))"

definition active_period :: "int option \<times> int option \<Rightarrow> error + (int option \<times> int option)" where
  "active_period ap =
     (case period_bound (fst ap) of
        Inl e \<Rightarrow> Inl e
      | Inr s \<Rightarrow> (case period_bound (snd ap) of Inl e \<Rightarrow> Inl e | Inr e' \<Rightarrow> Inr (s, e')))"

definition alert_body :: "string \<Rightarrow> FeedEntity \<Rightarrow> error + AlertOut list" where
  "alert_body stopId ent =
     (case alert ent of
        None \<Rightarrow> Inr []
      | Some a \<Rightarrow>
          if (case informedEntity a of None \<Rightarrow> False | Some ies \<Rightarrow> stopId \<in> set ies) then
            (case (case activePeriod a of None \<Rightarrow> Inr [] | Some aps \<Rightarrow> map_throwing active_period aps) of
               Inl e \<Rightarrow> Inl e
             | Inr periods \<Rightarrow>
                 Inr [\<lparr>out_header = (if first_text (headerText a) \<noteq> [] then first_text (headerText a)
                                      else ''Alert''),
                       out_description = first_text (descriptionText a),
                       out_url = (if first_text (url a) \<noteq> [] then Some (first_text (url a)) else None),
                       out_activePeriod = periods\<rparr>])
          else Inr [])"

definition processAlerts :: "FeedMessage \<Rightarrow> string \<Rightarrow> error + AlertOut list" where
  "processAlerts feed stopId = forEach_push (alert_body stopId) (entity feed)"

subsection \<open>getStopInfo\<close>

text \<open>
  The three readings of the clock in one call, in milliseconds: \<open>new Date()\<close> at the
  start, \<open>Date.now()\<close> in the staleness check, \<open>Date.now()\<close> in \<open>_processTrips\<close>.
\<close>

record clock =
  t_request :: int
  t_staleness :: int
  t_process :: int

text \<open>The calls made on the monitor, in order.\<close>

datatype rt_read = ReadTrips | ReadStatus | ReadAlerts

text \<open>
  The first part of \<open>getStopInfo\<close> after the stop has resolved: the warnings about the
  trip feed and the value of \<open>lastUpdated\<close>.
\<close>

definition trips_warnings :: "GtfsMonitor \<Rightarrow> clock \<Rightarrow> string list \<times> int" where
  "trips_warnings mon clk =
     (let tripsStatus = status_trips (getStatus mon)
      in case getTrips mon of
           None \<Rightarrow>
             (case status_error tripsStatus of
                None \<Rightarrow> ([''Real-time trip data initializing...''], t_request clk)
              | Some msg \<Rightarrow>
                  if msg \<noteq> [] then ([''Real-time trip data unavailable: '' @ msg], t_request clk)
                  else ([''Real-time trip data initializing...''], t_request clk))
         | Some feed \<Rightarrow>
             (let dataAge = t_staleness clk - (case lastUpdate tripsStatus of None \<Rightarrow> 0 | Some t \<Rightarrow> t)
              in ((if dataAge > 120000
                   then [''Real-time data is stale ('' @ show_int (js_round_div dataAge 1000) @ ''s old)'']
                   else []),
                  (case lastUpdate tripsStatus of None \<Rightarrow> t_request clk | Some t \<Rightarrow> t))))"

definition getStopInfo ::
  "StaticDataService \<Rightarrow> GtfsMonitor \<Rightarrow> clock \<Rightarrow> string \<Rightarrow> string option
     \<Rightarrow> rt_read list \<times> (error + StopInfo)" where
  "getStopInfo sds mon clk stopId dirn =
     (case getStop sds stopId of
        None \<Rightarrow> ([], Inl (Error (''Stop '' @ stopId @ '' not found'')))
      | Some stp \<Rightarrow>
          (let out = \<lparr>out_id = stop_id stp, out_name = stop_name stp, out_code = stop_code stp,
                      out_platform = platform_code stp, out_lat = stop_lat stp, out_lon = stop_lon stp\<rparr>;
               (ws, updated) = trips_warnings mon clk
           in case (case getTrips mon of
                      None \<Rightarrow> Inr []
                    | Some feed \<Rightarrow> processTrips sds (t_process clk) feed stopId) of
                Inl e \<Rightarrow> ([ReadTrips, ReadStatus], Inl e)
              | Inr ts \<Rightarrow>
                  (let upcoming = sortAndFilterTrips ts dirn
                   in case getAlerts mon of
                        Some feed \<Rightarrow>
                          (case processAlerts feed stopId of
                             Inl e \<Rightarrow> ([ReadTrips, ReadStatus, ReadAlerts], Inl e)
                           | Inr als \<Rightarrow>
                               ([ReadTrips, ReadStatus, ReadAlerts],
                                Inr \<lparr>si_stop = out, upcomingTrips = upcoming, alerts = als,
                                     warnings = ws, lastUpdated = updated\<rparr>))
                      | None \<Rightarrow>
                          ([ReadTrips, ReadStatus, ReadAlerts, ReadStatus],
                           Inr \<lparr>si_stop = out, upcomingTrips = upcoming, alerts = [],
                                warnings =
                                  ws @ (case status_error (status_alerts (getStatus mon)) of
                                          None \<Rightarrow> []
                                        | Some msg \<Rightarrow>
                                            if msg \<noteq> [] then [''Real-time alerts data unavailable'']
                                            else []),
                                lastUpdated = updated\<rparr>))))"

section \<open>The /next handler\<close>

record config =
  station_id :: string
  station_direction :: string

text \<open>The query of the request; \<open>q_limit\<close> is the value of \<open>parseInt(req.query.limit)\<close>,
  \<open>None\<close> for \<open>NaN\<close>.\<close>

record query =
  q_stop :: "string option"
  q_direction :: "string option"
  q_limit :: "int option"

record Arrival =
  destination :: string
  arr_minutesUntilArrival :: int
  arr_status :: string
  arr_vehicle :: "string option"
  arr_occupancy :: "nat option"

record NextBody =
  nb_station :: string
  nb_platform :: string
  nb_direction :: string
  nextArrivals :: "Arrival list"
  nb_lastUpdated :: int
  nb_warnings :: "string list option"

datatype next_response = Json NextBody | Status500 string

text \<open>\<open>a || b\<close> on strings that may be absent.\<close>

definition str_or :: "string option \<Rightarrow> string \<Rightarrow> string" where
  "str_or a b = (case a of None \<Rightarrow> b | Some s \<Rightarrow> if s \<noteq> [] then s else b)"

text \<open>The callback of \<open>map\<close> in the handler.\<close>

definition next_arrival :: "TripInfo \<Rightarrow> Arrival" where
  "next_arrival t =
     \<lparr>destination =
        (if headsign t \<noteq> [] then
           (let parts = split (headsign t) '' / ''
            in if length parts > 1 then last parts else headsign t)
         else ''Unknown''),
      arr_minutesUntilArrival = minutesUntilArrival t,
      arr_status = (if minutesUntilArrival t \<le> 1 then ''arriving'' else ''scheduled''),
      arr_vehicle = vehicleLabel t,
      arr_occupancy = occupancyStatus t\<rparr>"

definition next_limit :: "query \<Rightarrow> int" where
  "next_limit q = (case q_limit q of None \<Rightarrow> 4 | Some n \<Rightarrow> if n \<noteq> 0 then n else 4)"

definition next_handler ::
  "config \<Rightarrow> StaticDataService \<Rightarrow> GtfsMonitor \<Rightarrow> clock \<Rightarrow> query \<Rightarrow> next_response" where
  "next_handler cfg sds mon clk q =
     (let stopId = str_or (q_stop q) (station_id cfg);
          dirn = str_or (q_direction q) (station_direction cfg);
          limit = next_limit q
      in case snd (getStopInfo sds mon clk stopId (Some dirn)) of
           Inl e \<Rightarrow> Status500 (message e)
         | Inr stopInfo \<Rightarrow>
             Json \<lparr>nb_station = out_name (si_stop stopInfo),
                   nb_platform = out_platform (si_stop stopInfo),
                   nb_direction = (if dirn \<noteq> [] then dirn else ''all''),
                   nextArrivals = map next_arrival (slice0 limit (upcomingTrips stopInfo)),
                   nb_lastUpdated = lastUpdated stopInfo,
                   nb_warnings = (if length (warnings stopInfo) > 0 then Some (warnings stopInfo) else None)\<rparr>)"

section \<open>A scenario\<close>

text \<open>
  The clock reads 1700000000000 ms. A trip update for trip \<open>tid\<close> reports, at stop
  \<open>M20-2\<close>, an arrival at second \<open>t\<close> with delay \<open>d\<close>.
\<close>

definition scenario_clock :: clock where
  "scenario_clock = \<lparr>t_request = 1700000000000, t_staleness = 1700000000000, t_process = 1700000000000\<rparr>"

definition arrival_update :: "string \<Rightarrow> int \<Rightarrow> int option \<Rightarrow> FeedEntity" where
  "arrival_update tid t d =
     \<lparr>tripUpdate = Some \<lparr>tu_tripId = tid, tu_vehicle = None,
        stopTimeUpdate = Some [\<lparr>stu_stopId = ''M20-2'',
          arrival = Some \<lparr>ste_time = Some t, ste_delay = d\<rparr>, departure = None\<rparr>]\<rparr>,
      vehicle = None, alert = None\<rparr>"

text \<open>One arrival 90 seconds ahead with a delay of 30 seconds, in a snapshot taken 10
  seconds ago; the same arrival after a later one; the first snapshot, taken 185.4
  seconds ago.\<close>

definition scenario_monitor :: GtfsMonitor where
  "scenario_monitor =
     new_GtfsMonitor\<lparr>tripsFeed := Some \<lparr>entity = [arrival_update ''100'' 1700000090 (Some 30)]\<rparr>,
       lastTripsUpdate := Some 1699999990000\<rparr>"

definition unordered_monitor :: GtfsMonitor where
  "unordered_monitor =
     new_GtfsMonitor\<lparr>tripsFeed := Some \<lparr>entity = [arrival_update ''100'' 1700000300 None,
         arrival_update ''100'' 1700000090 (Some 30)]\<rparr>,
       lastTripsUpdate := Some 1699999990000\<rparr>"

definition stale_monitor :: GtfsMonitor where
  "stale_monitor = scenario_monitor\<lparr>lastTripsUpdate := Some 1699999814600\<rparr>"

text \<open>The static index without its routes: trip \<open>100\<close> resolves, its route \<open>1\<close> does not.\<close>

definition routeless_service :: StaticDataService where
  "routeless_service = loaded_service\<lparr>routes := Map.empty\<rparr>"

definition montgomery_out :: StopOut where
  "montgomery_out = \<lparr>out_id = ''M20-2'', out_name = ''Montgomery St.'', out_code = ''MONT'',
     out_platform = ''2'', out_lat = ''37.789'', out_lon = ''-122.401''\<rparr>"

definition scenario_prediction :: TripInfo where
  "scenario_prediction =
     \<lparr>tripId = ''100'', routeId = ''1'', routeName = ''Yellow-S'',
      routeLongName = ''Antioch to SFO/Millbrae'', headsign = ''SFO/Millbrae'',
      direction = ''outbound'', scheduledArrival = 1700000060000,
      estimatedArrival = 1700000090000, minutesUntilArrival = 2, delay = 30,
      routeColor = Some ''#FFFF33'', routeTextColor = Some ''#000000'',
      occupancyStatus = None, vehicleLabel = None\<rparr>"

definition later_prediction :: TripInfo where
  "later_prediction =
     scenario_prediction\<lparr>scheduledArrival := 1700000300000, estimatedArrival := 1700000300000,
       minutesUntilArrival := 5, delay := 0\<rparr>"


section \<open>An invariant of the monitor\<close>

text \<open>The monitor sets a snapshot and its time together: a monitor that has
  a snapshot has the time of its update.\<close>

definition snapshots_dated :: "GtfsMonitor \<Rightarrow> bool" where
  "snapshots_dated m =
     ((tripsFeed m \<noteq> None \<longrightarrow> lastTripsUpdate m \<noteq> None)
      \<and> (alertsFeed m \<noteq> None \<longrightarrow> lastAlertsUpdate m \<noteq> None))"

section \<open>Examples for the direction filter and the /next projection\<close>

definition green_s_prediction :: TripInfo where
  "green_s_prediction = scenario_prediction\<lparr>routeId := ''5'', routeName := ''Green-S''\<rparr>"

definition antioch_prediction :: TripInfo where
  "antioch_prediction = scenario_prediction\<lparr>headsign := ''Richmond / Antioch''\<rparr>"

text \<open>The destination label in the words of the specification: the final segment of the
  headsign when it is cut at each \<open>/\<close>.\<close>

definition spec_destination :: "string \<Rightarrow> string" where
  "spec_destination h = last (split h ''/'')"

definition default_config :: config where
  "default_config = \<lparr>station_id = ''M20-2'', station_direction = ''eastbound''\<rparr>"

definition westbound_query :: query where
  "westbound_query = \<lparr>q_stop = None, q_direction = Some ''westbound'', q_limit = Some 1\<rparr>"

section \<open>Static Index: reload\<close>

lemma reload_from_scratch: "reload fs s = load fs new_StaticDataService"
  by (cases s) (simp add: reload_def new_StaticDataService_def)

text \<open>
  C1 (as stated): a reload on invalid files leaves every identifier resolvable that was
  resolvable before. It fails on the code: \<open>reload\<close> clears the maps before it reads any
  file. Stop \<open>M20-2\<close>, trip \<open>100\<close> and its route and stop times resolve after the initial
  load, and none of them resolves after a reload that finds \<open>stops.txt\<close> absent.
\<close>

theorem reload_clobbers_index:
  "getStop loaded_service ''M20-2'' = Some montgomery
   \<and> getTrip loaded_service ''100'' = Some trip_100
   \<and> getRoute loaded_service ''1'' = Some yellow_s
   \<and> stopTimes loaded_service ''100'' = Some [stop_time_100]
   \<and> fst (reload files_without_stops loaded_service) = Some (Error ''ENOENT: no such file or directory'')
   \<and> getStop (snd (reload files_without_stops loaded_service)) ''M20-2'' = None
   \<and> getTrip (snd (reload files_without_stops loaded_service)) ''100'' = None
   \<and> getRoute (snd (reload files_without_stops loaded_service)) ''1'' = None
   \<and> stopTimes (snd (reload files_without_stops loaded_service)) ''100'' = None"
  by (simp add: reload_from_scratch loaded_service_def load_def new_StaticDataService_def
      good_files_def files_without_stops_def set_all_def push_all_def
      getStop_def getTrip_def getRoute_def
      montgomery_def yellow_s_def trip_100_def stop_time_100_def)

text \<open>
  C1 (amended): a reload on invalid files fails with the load error and does not preserve
  the previous index. Whatever the index held, the result is what \<open>load\<close> builds from the
  empty index: the service is left uninitialized, the stop-times table is empty, the table
  of the first invalid file and of every file read after it (order: stops, routes, trips,
  stop times) is empty, and a table read before it holds the rows of the new file only.
\<close>

theorem reload_invalid_files:
  assumes "stops_txt fs = Inl e \<or> routes_txt fs = Inl e \<or> trips_txt fs = Inl e
           \<or> stop_times_txt fs = Inl e"
  shows "fst (reload fs s) \<noteq> None
   \<and> reload fs s = load fs new_StaticDataService
   \<and> \<not> initialized (snd (reload fs s))
   \<and> stopTimes (snd (reload fs s)) = Map.empty
   \<and> (stops_txt fs = Inl e \<longrightarrow>
        reload fs s = (Some e, new_StaticDataService))
   \<and> (\<forall>rows. stops_txt fs = Inr rows \<longrightarrow>
        stops (snd (reload fs s)) = set_all stop_id rows Map.empty)
   \<and> (\<forall>rows. stops_txt fs = Inr rows \<and> routes_txt fs = Inl e \<longrightarrow>
        reload fs s = (Some e, new_StaticDataService\<lparr>stops := set_all stop_id rows Map.empty\<rparr>))
   \<and> (\<forall>rows. routes_txt fs = Inr rows \<and> trips_txt fs = Inl e \<longrightarrow>
        trips (snd (reload fs s)) = Map.empty)"
  using assms
  by (auto simp: reload_from_scratch load_def new_StaticDataService_def Let_def
      split: sum.splits)

theorem reload_invalid_files_witness:
  "reload files_without_stops loaded_service
     = (Some (Error ''ENOENT: no such file or directory''), new_StaticDataService)
   \<and> stopTimes (snd (reload files_without_stops loaded_service)) = Map.empty"
proof -
  have h: "stops_txt files_without_stops = Inl (Error ''ENOENT: no such file or directory'')"
    by (simp add: files_without_stops_def)
  from h have "stops_txt files_without_stops = Inl (Error ''ENOENT: no such file or directory'')
      \<or> routes_txt files_without_stops = Inl (Error ''ENOENT: no such file or directory'')
      \<or> trips_txt files_without_stops = Inl (Error ''ENOENT: no such file or directory'')
      \<or> stop_times_txt files_without_stops = Inl (Error ''ENOENT: no such file or directory'')"
    by simp
  from reload_invalid_files [OF this, of loaded_service] h show ?thesis
    by blast
qed

section \<open>Feed Poller: the retry loop\<close>

text \<open>The loop unrolled: three attempts at most, a wait of 1000 ms after a failed first
  attempt, of 2000 ms after a failed second one, none after the third.\<close>

lemma fetchFeed_unrolled:
  "fetchFeed env =
     (case run_attempt (env 1) of
        None \<Rightarrow> None
      | Some (t1, Inr feed) \<Rightarrow> Some ([Attempt 1 t1], Inr feed)
      | Some (t1, Inl e1) \<Rightarrow>
          (case run_attempt (env 2) of
             None \<Rightarrow> None
           | Some (t2, Inr feed) \<Rightarrow> Some ([Attempt 1 t1, Wait 1000, Attempt 2 t2], Inr feed)
           | Some (t2, Inl e2) \<Rightarrow>
               (case run_attempt (env 3) of
                  None \<Rightarrow> None
                | Some (t3, Inr feed) \<Rightarrow>
                    Some ([Attempt 1 t1, Wait 1000, Attempt 2 t2, Wait 2000, Attempt 3 t3], Inr feed)
                | Some (t3, Inl e3) \<Rightarrow>
                    Some ([Attempt 1 t1, Wait 1000, Attempt 2 t2, Wait 2000, Attempt 3 t3],
                          Inl (Some e3)))))"
proof -
  have four: "\<And>e evs. fetchFeed_from env 4 e evs = Some (evs, Inl e)"
    by (subst fetchFeed_from.simps) (simp add: retries_def)
  have three: "\<And>e evs. fetchFeed_from env 3 e evs =
      (case run_attempt (env 3) of
         None \<Rightarrow> None
       | Some (t, Inr feed) \<Rightarrow> Some (evs @ [Attempt 3 t], Inr feed)
       | Some (t, Inl e') \<Rightarrow> Some (evs @ [Attempt 3 t], Inl (Some e')))"
    by (subst fetchFeed_from.simps) (simp add: retries_def four split: option.splits sum.splits)
  have two: "\<And>e evs. fetchFeed_from env 2 e evs =
      (case run_attempt (env 2) of
         None \<Rightarrow> None
       | Some (t, Inr feed) \<Rightarrow> Some (evs @ [Attempt 2 t], Inr feed)
       | Some (t, Inl e') \<Rightarrow> fetchFeed_from env 3 (Some e') (evs @ [Attempt 2 t, Wait 2000]))"
    by (subst fetchFeed_from.simps) (simp add: retries_def split: option.splits sum.splits)
  have one: "\<And>e evs. fetchFeed_from env 1 e evs =
      (case run_attempt (env 1) of
         None \<Rightarrow> None
       | Some (t, Inr feed) \<Rightarrow> Some (evs @ [Attempt 1 t], Inr feed)
       | Some (t, Inl e') \<Rightarrow> fetchFeed_from env 2 (Some e') (evs @ [Attempt 1 t, Wait 1000]))"
    by (subst fetchFeed_from.simps)
      (simp add: retries_def del: One_nat_def split: option.splits sum.splits)
  show ?thesis
    by (simp add: fetchFeed_def one two three del: One_nat_def split: option.splits sum.splits)
qed

text \<open>An attempt fails to settle in one case only: the response has arrived in time with a
  status that is ok, and its body never ends. Until the response has arrived, the timer
  bounds the attempt.\<close>

lemma run_attempt_never:
  "run_attempt a = None \<longleftrightarrow>
     (\<exists>t resp. fetch_result a = After t (Inr resp) \<and> t < abort_timeout \<and> ok resp
        \<and> body_result a = Never)"
  by (auto simp: run_attempt_def split: settles.splits if_splits sum.splits)

lemma run_attempt_without_body:
  "run_attempt a = Some (t, r) \<Longrightarrow> body_result a = Never \<Longrightarrow> t \<le> abort_timeout \<and> isl r"
  by (auto simp: run_attempt_def split: settles.splits if_splits sum.splits)

lemma fetchFeed_returns:
  assumes "\<And>n. run_attempt (env n) \<noteq> None"
  shows "\<exists>evs r. fetchFeed env = Some (evs, r) \<and> length [ev \<leftarrow> evs. \<exists>n t. ev = Attempt n t] \<le> 3"
proof -
  from assms [of 1] obtain t1 r1 where 1: "run_attempt (env 1) = Some (t1, r1)" by auto
  from assms [of 2] obtain t2 r2 where 2: "run_attempt (env 2) = Some (t2, r2)" by auto
  from assms [of 3] obtain t3 r3 where 3: "run_attempt (env 3) = Some (t3, r3)" by auto
  show ?thesis
    by (cases r1; cases r2; cases r3) (simp_all add: fetchFeed_unrolled 1 2 3 del: One_nat_def)
qed

lemma fetchFeed_exhausted:
  assumes "run_attempt (env 1) = Some (t1, Inl e1)"
    and "run_attempt (env 2) = Some (t2, Inl e2)"
    and "run_attempt (env 3) = Some (t3, Inl e3)"
  shows "fetchFeed env =
     Some ([Attempt 1 t1, Wait 1000, Attempt 2 t2, Wait 2000, Attempt 3 t3], Inl (Some e3))"
  by (simp add: fetchFeed_unrolled assms del: One_nat_def)

lemma run_attempt_503: "run_attempt unavailable_503 = Some (40, Inl (Error ''HTTP 503: Service Unavailable''))"
  by (simp add: run_attempt_def unavailable_503_def abort_timeout_def http_error_def
      show_nat.simps [of 503] show_nat.simps [of 50] show_nat.simps [of 5] digit_char_def)

text \<open>
  C2: when the three attempts of a refresh fail, the refresh completes, the snapshot and
  the time of the last update of the feed are as before (so the snapshot served is the one
  held before), the error of the last attempt is the error of the feed and the error that
  \<open>getStatus\<close> shows, the error counter of the feed is one more than before, and the other
  counters and the other feed are as before. This holds for the trip-updates feed
  (\<open>updateTrips\<close>) and for the alerts feed (\<open>updateAlerts\<close>).
\<close>

theorem refresh_exhausted_keeps_snapshot:
  assumes "run_attempt (env 1) = Some (t1, Inl e1)"
    and "run_attempt (env 2) = Some (t2, Inl e2)"
    and "run_attempt (env 3) = Some (t3, Inl e3)"
  shows "(\<exists>m'. updateTrips env now m = Some m'
            \<and> m' = m\<lparr>tripsError := Some e3,
                      stats := (stats m)\<lparr>tripErrors := tripErrors (stats m) + 1\<rparr>\<rparr>
            \<and> tripsFeed m' = tripsFeed m \<and> getTrips m' = getTrips m
            \<and> lastTripsUpdate m' = lastTripsUpdate m
            \<and> lastUpdate (status_trips (getStatus m')) = lastUpdate (status_trips (getStatus m))
            \<and> tripsError m' = Some e3
            \<and> status_error (status_trips (getStatus m')) = Some (message e3)
            \<and> tripErrors (stats m') = tripErrors (stats m) + 1
            \<and> tripUpdates (stats m') = tripUpdates (stats m))
       \<and> (\<exists>m'. updateAlerts env now m = Some m'
            \<and> m' = m\<lparr>alertsError := Some e3,
                      stats := (stats m)\<lparr>alertErrors := alertErrors (stats m) + 1\<rparr>\<rparr>
            \<and> alertsFeed m' = alertsFeed m \<and> getAlerts m' = getAlerts m
            \<and> lastAlertsUpdate m' = lastAlertsUpdate m
            \<and> lastUpdate (status_alerts (getStatus m')) = lastUpdate (status_alerts (getStatus m))
            \<and> alertsError m' = Some e3
            \<and> status_error (status_alerts (getStatus m')) = Some (message e3)
            \<and> alertErrors (stats m') = alertErrors (stats m) + 1
            \<and> alertUpdates (stats m') = alertUpdates (stats m))"
  by (simp add: updateTrips_def updateAlerts_def fetchFeed_exhausted [OF assms]
      getTrips_def getAlerts_def getStatus_def)

theorem refresh_exhausted_keeps_snapshot_witness:
  "(\<exists>m'. updateTrips (\<lambda>n. unavailable_503) 1700000090000 healthy_monitor = Some m'
        \<and> getTrips m' = Some empty_feed
        \<and> lastTripsUpdate m' = Some 1700000000000
        \<and> status_error (status_trips (getStatus m')) = Some ''HTTP 503: Service Unavailable''
        \<and> tripErrors (stats m') = 3)
   \<and> (\<exists>m'. updateAlerts (\<lambda>n. unavailable_503) 1700000090000 healthy_monitor = Some m'
        \<and> getAlerts m' = Some empty_feed
        \<and> lastAlertsUpdate m' = Some 1700000000000
        \<and> status_error (status_alerts (getStatus m')) = Some ''HTTP 503: Service Unavailable''
        \<and> alertErrors (stats m') = 2)"
  using refresh_exhausted_keeps_snapshot [of "\<lambda>n. unavailable_503" 40 _ 40 _ 40 _
      1700000090000 healthy_monitor, OF run_attempt_503 run_attempt_503 run_attempt_503]
  by (simp add: healthy_monitor_def new_GtfsMonitor_def getTrips_def getAlerts_def)

text \<open>
  C8: a refresh makes three attempts at most, waits 1000 ms after a failed first attempt
  and 2000 ms after a failed second one, and does not wait after the third
  (\<open>fetchFeed_unrolled\<close>). The 10 second timer does not bound an attempt: \<open>clearTimeout\<close>
  runs as soon as \<open>fetch\<close> has resolved, before the body is read. An attempt whose
  response arrives after 5 ms and whose body arrives after a minute takes 60005 ms and
  succeeds; when the body never ends, the attempt never settles and neither \<open>fetchFeed\<close>
  nor the refresh returns.
\<close>

theorem attempt_not_bounded_by_timeout:
  "run_attempt slow_body = Some (60005, Inr empty_feed)
   \<and> abort_timeout < 60005
   \<and> fetchFeed (\<lambda>n. slow_body) = Some ([Attempt 1 60005], Inr empty_feed)
   \<and> run_attempt stalled_body = None
   \<and> fetchFeed (\<lambda>n. stalled_body) = None
   \<and> updateTrips (\<lambda>n. stalled_body) 1700000090000 healthy_monitor = None
   \<and> updateAlerts (\<lambda>n. stalled_body) 1700000090000 healthy_monitor = None"
  by (simp add: fetchFeed_unrolled updateTrips_def updateAlerts_def run_attempt_def
      slow_body_def stalled_body_def abort_timeout_def)

section \<open>Aggregation Engine\<close>

subsection \<open>Loops that may throw\<close>



subsection \<open>Sorting and filtering\<close>


lemma sortAndFilterTrips_sorted: "sorted (map estimatedArrival (sortAndFilterTrips ts dirn))"
  by (simp add: sortAndFilterTrips_def Let_def sorted_filter split: option.splits)

lemma getStopInfo_upcoming:
  assumes "getStopInfo sds mon clk stopId dirn = (rs, Inr info)"
  shows "\<exists>ts. upcomingTrips info = sortAndFilterTrips ts dirn
            \<and> (case getTrips mon of
                  None \<Rightarrow> Inr []
                | Some feed \<Rightarrow> processTrips sds (t_process clk) feed stopId) = Inr ts"
  using assms
  by (auto simp: getStopInfo_def Let_def split: option.splits sum.splits prod.splits)

text \<open>
  C3: for a stop identifier that has no entry in the static index, \<open>getStopInfo\<close> fails
  with the error \<open>Stop <id> not found\<close>, and it has made no call on the monitor when it
  fails: neither \<open>getTrips\<close> nor \<open>getStatus\<close> nor \<open>getAlerts\<close>. The outcome is the same
  whatever the monitor holds and whatever the clock reads.
\<close>

theorem getStopInfo_unknown_stop:
  assumes "getStop sds stopId = None"
  shows "getStopInfo sds mon clk stopId dirn = ([], Inl (Error (''Stop '' @ stopId @ '' not found'')))
     \<and> ReadTrips \<notin> set (fst (getStopInfo sds mon clk stopId dirn))
     \<and> ReadAlerts \<notin> set (fst (getStopInfo sds mon clk stopId dirn))
     \<and> ReadStatus \<notin> set (fst (getStopInfo sds mon clk stopId dirn))
     \<and> getStopInfo sds mon' clk' stopId dirn = getStopInfo sds mon clk stopId dirn"
  using assms by (simp add: getStopInfo_def)

lemma loaded_service_stops: "getStop loaded_service sid = (if sid = ''M20-2'' then Some montgomery else None)"
  by (simp add: loaded_service_def load_def new_StaticDataService_def good_files_def
      set_all_def getStop_def montgomery_def)

theorem getStopInfo_unknown_stop_witness:
  "getStopInfo loaded_service healthy_monitor \<lparr>t_request = 0, t_staleness = 0, t_process = 0\<rparr>
     ''XX99'' None = ([], Inl (Error ''Stop XX99 not found''))"
proof -
  have "getStop loaded_service ''XX99'' = None"
    by (simp add: loaded_service_stops)
  from getStopInfo_unknown_stop [OF this] show ?thesis by simp
qed

text \<open>
  C7: whatever the trip-updates snapshot holds, in whatever order, the \<open>upcomingTrips\<close>
  of a response of \<open>getStopInfo\<close> are in non-decreasing order of \<open>estimatedArrival\<close>.
\<close>

theorem upcomingTrips_sorted:
  assumes "getStopInfo sds mon clk stopId dirn = (rs, Inr info)"
  shows "sorted (map estimatedArrival (upcomingTrips info))"
proof -
  from getStopInfo_upcoming [OF assms] obtain ts
    where "upcomingTrips info = sortAndFilterTrips ts dirn" by blast
  then show ?thesis by (simp add: sortAndFilterTrips_sorted)
qed

subsection \<open>The scenario, evaluated\<close>

lemmas scenario_defs = scenario_clock_def arrival_update_def scenario_monitor_def unordered_monitor_def
  stale_monitor_def routeless_service_def new_GtfsMonitor_def loaded_service_def load_def
  new_StaticDataService_def good_files_def set_all_def push_all_def montgomery_def yellow_s_def
  trip_100_def stop_time_100_def montgomery_out_def scenario_prediction_def later_prediction_def

lemmas transit_defs = getStopInfo_def trips_warnings_def getTrips_def getAlerts_def getStatus_def
  getStop_def getTrip_def getRoute_def processTrips_def entity_body_def stopTimeUpdate_body_def
  tripInfo_of_def   sortAndFilterTrips_def event_time_def event_delay_def or_else_def long_or_def truthy_def toISOString_def
  max_date_ms_def js_round_div_def

lemma scenario_result:
  "getStopInfo loaded_service scenario_monitor scenario_clock ''M20-2'' None =
     ([ReadTrips, ReadStatus, ReadAlerts, ReadStatus],
      Inr \<lparr>si_stop = montgomery_out, upcomingTrips = [scenario_prediction], alerts = [],
           warnings = [], lastUpdated = 1699999990000\<rparr>)"
  by (simp add: scenario_defs transit_defs Let_def)

lemma unordered_result:
  "getStopInfo loaded_service unordered_monitor scenario_clock ''M20-2'' None =
     ([ReadTrips, ReadStatus, ReadAlerts, ReadStatus],
      Inr \<lparr>si_stop = montgomery_out, upcomingTrips = [scenario_prediction, later_prediction],
           alerts = [], warnings = [], lastUpdated = 1699999990000\<rparr>)"
  by (simp add: scenario_defs transit_defs Let_def)

lemma show_nat_digit: "n < 10 \<Longrightarrow> show_nat n = [digit_char n]"
  by (subst show_nat.simps) simp

lemma show_nat_more: "10 \<le> n \<Longrightarrow> show_nat n = show_nat (n div 10) @ [digit_char (n mod 10)]"
  by (subst show_nat.simps) simp

lemma show_185: "show_int 185 = ''185''"
  by (simp add: show_int_def show_nat_digit show_nat_more digit_char_def)

lemma stale_result:
  "getStopInfo loaded_service stale_monitor scenario_clock ''M20-2'' None =
     ([ReadTrips, ReadStatus, ReadAlerts, ReadStatus],
      Inr \<lparr>si_stop = montgomery_out, upcomingTrips = [scenario_prediction], alerts = [],
           warnings = [''Real-time data is stale (185s old)''], lastUpdated = 1699999814600\<rparr>)"
proof -
  have "js_round_div (1700000000000 - 1699999814600) 1000 = 185"
    by (simp add: js_round_div_def)
  then show ?thesis
    by (simp add: scenario_defs transit_defs Let_def show_185)
qed


theorem upcomingTrips_sorted_witness:
  "sorted (map estimatedArrival [scenario_prediction, later_prediction])"
  using upcomingTrips_sorted [OF unordered_result] by simp

subsection \<open>Every prediction that is emitted\<close>

lemma js_round_div_nearest:
  "0 < b \<Longrightarrow> 2 * b * js_round_div a b - b \<le> 2 * a \<and> 2 * a < 2 * b * js_round_div a b + b"
proof -
  assume b: "0 < b"
  have "2 * b * ((2 * a + b) div (2 * b)) + (2 * a + b) mod (2 * b) = 2 * a + b"
    by simp
  moreover have "0 \<le> (2 * a + b) mod (2 * b)" "(2 * a + b) mod (2 * b) < 2 * b"
    using b by simp_all
  ultimately show ?thesis
    unfolding js_round_div_def by linarith
qed







subsection \<open>Staleness\<close>

lemma getStopInfo_warnings:
  assumes "getStopInfo sds mon clk stopId dirn = (rs, Inr info)"
  shows "lastUpdated info = snd (trips_warnings mon clk)
     \<and> (warnings info = fst (trips_warnings mon clk)
          \<or> warnings info = fst (trips_warnings mon clk) @ [''Real-time alerts data unavailable''])"
  using assms
  by (auto simp: getStopInfo_def Let_def split: option.splits sum.splits prod.splits if_splits)

lemma trips_warnings_present:
  assumes "getTrips mon = Some feed" and "lastTripsUpdate mon = Some t"
  shows "trips_warnings mon clk =
     ((if t_staleness clk - t > 120000
       then [''Real-time data is stale ('' @ show_int (js_round_div (t_staleness clk - t) 1000) @ ''s old)'']
       else []), t)"
  using assms by (simp add: trips_warnings_def getStatus_def Let_def)

text \<open>The two refreshes keep every snapshot dated, so that a snapshot that is present
  has the time of its update.\<close>

lemma snapshots_dated_new: "snapshots_dated new_GtfsMonitor"
  by (simp add: snapshots_dated_def new_GtfsMonitor_def)

lemma snapshots_dated_updateTrips:
  "snapshots_dated m \<Longrightarrow> updateTrips env now m = Some m' \<Longrightarrow> snapshots_dated m'"
  by (auto simp: snapshots_dated_def updateTrips_def split: option.splits sum.splits)

lemma snapshots_dated_updateAlerts:
  "snapshots_dated m \<Longrightarrow> updateAlerts env now m = Some m' \<Longrightarrow> snapshots_dated m'"
  by (auto simp: snapshots_dated_def updateAlerts_def split: option.splits sum.splits)

text \<open>
  C5: when the monitor holds a trip-updates snapshot, taken at \<open>t\<close>, the age of the
  data is the \<open>Date.now()\<close> of the check less \<open>t\<close>. If the age exceeds 120000 ms, the
  first warning of the response is the staleness warning, which prints \<open>Math.round\<close> of
  the age in seconds (the nearest integer, a half rounded up). Otherwise the response has
  no staleness warning and its \<open>lastUpdated\<close> is \<open>t\<close>. (\<open>lastUpdated\<close> is \<open>t\<close> in
  the stale case as well.)
\<close>

theorem staleness_warning_and_lastUpdated:
  assumes "getTrips mon = Some feed" and "lastTripsUpdate mon = Some t"
    and "getStopInfo sds mon clk stopId dirn = (rs, Inr info)"
  shows "(120000 < t_staleness clk - t \<longrightarrow>
            warnings info \<noteq> []
            \<and> hd (warnings info) =
                ''Real-time data is stale ('' @ show_int (js_round_div (t_staleness clk - t) 1000) @ ''s old)''
            \<and> 1000 * js_round_div (t_staleness clk - t) 1000 - 500 \<le> t_staleness clk - t
            \<and> t_staleness clk - t < 1000 * js_round_div (t_staleness clk - t) 1000 + 500)
     \<and> (\<not> 120000 < t_staleness clk - t \<longrightarrow>
            lastUpdated info = t
            \<and> (\<forall>w\<in>set (warnings info). w = ''Real-time alerts data unavailable''))
     \<and> lastUpdated info = t"
proof -
  note tw = trips_warnings_present [OF assms(1,2), of clk]
  note gw = getStopInfo_warnings [OF assms(3)]
  have round: "1000 * js_round_div (t_staleness clk - t) 1000 - 500 \<le> t_staleness clk - t
      \<and> t_staleness clk - t < 1000 * js_round_div (t_staleness clk - t) 1000 + 500"
    using js_round_div_nearest [of 1000 "t_staleness clk - t"] by simp
  have updated: "lastUpdated info = t"
    using gw tw by simp
  have stale: "120000 < t_staleness clk - t \<longrightarrow> warnings info \<noteq> []
      \<and> hd (warnings info) =
          ''Real-time data is stale ('' @ show_int (js_round_div (t_staleness clk - t) 1000) @ ''s old)''"
    using gw tw by auto
  have fresh: "\<not> 120000 < t_staleness clk - t \<longrightarrow>
      (\<forall>w\<in>set (warnings info). w = ''Real-time alerts data unavailable'')"
    using gw tw by auto
  from round updated stale fresh show ?thesis by blast
qed

theorem staleness_warning_and_lastUpdated_witness:
  "warnings \<lparr>si_stop = montgomery_out, upcomingTrips = [scenario_prediction], alerts = [],
       warnings = [''Real-time data is stale (185s old)''], lastUpdated = 1699999814600\<rparr>
     = [''Real-time data is stale ('' @ show_int (js_round_div 185400 1000) @ ''s old)'']
   \<and> show_int (js_round_div 185400 1000) = ''185''
   \<and> lastUpdated \<lparr>si_stop = montgomery_out, upcomingTrips = [scenario_prediction], alerts = [],
       warnings = [], lastUpdated = 1699999990000\<rparr> = 1699999990000"
proof -
  have feed: "getTrips stale_monitor = Some \<lparr>entity = [arrival_update ''100'' 1700000090 (Some 30)]\<rparr>"
    by (simp add: getTrips_def stale_monitor_def scenario_monitor_def)
  have t: "lastTripsUpdate stale_monitor = Some 1699999814600"
    by (simp add: stale_monitor_def)
  have age: "t_staleness scenario_clock - 1699999814600 = 185400"
    by (simp add: scenario_clock_def)
  have feed': "getTrips scenario_monitor = Some \<lparr>entity = [arrival_update ''100'' 1700000090 (Some 30)]\<rparr>"
    by (simp add: getTrips_def scenario_monitor_def)
  have t': "lastTripsUpdate scenario_monitor = Some 1699999990000"
    by (simp add: scenario_monitor_def)
  have r: "js_round_div 185400 1000 = 185"
    by (simp add: js_round_div_def)
  from staleness_warning_and_lastUpdated [OF feed t stale_result]
    staleness_warning_and_lastUpdated [OF feed' t' scenario_result]
  show ?thesis
    by (simp add: age r show_185)
qed

subsection \<open>A trip whose route does not resolve\<close>


text \<open>The time of an arrival that is present always wins, also when no time was sent with
  it: the update below, whose departure alone carries a time, emits nothing.\<close>

lemma arrival_without_time_emits_nothing:
  "stopTimeUpdate_body 1700000000 ''M20-2'' ''100'' trip_100 None None
     \<lparr>stu_stopId = ''M20-2'', arrival = Some \<lparr>ste_time = None, ste_delay = Some 30\<rparr>,
      departure = Some \<lparr>ste_time = Some 1700000090, ste_delay = None\<rparr>\<rparr> = Inr []"
  by (simp add: stopTimeUpdate_body_def long_or_def event_time_def Let_def)






section \<open>Strings\<close>

lemma str_includes_iff: "str_includes s sub \<longleftrightarrow> (\<exists>pre post. s = pre @ sub @ post)"
proof (induction s)
  case Nil
  then show ?case by auto
next
  case (Cons c cs)
  have "take (length sub) (c # cs) = sub \<longleftrightarrow> (\<exists>post. c # cs = sub @ post)"
    by (metis append_eq_conv_conj append_take_drop_id)
  moreover have "(\<exists>pre post. c # cs = pre @ sub @ post)
      \<longleftrightarrow> (\<exists>post. c # cs = sub @ post) \<or> (\<exists>pre post. cs = pre @ sub @ post)"
  proof
    assume "\<exists>pre post. c # cs = pre @ sub @ post"
    then obtain pre post where eq: "c # cs = pre @ sub @ post" by blast
    show "(\<exists>post. c # cs = sub @ post) \<or> (\<exists>pre post. cs = pre @ sub @ post)"
    proof (cases pre)
      case Nil
      with eq show ?thesis by auto
    next
      case (Cons a pre')
      with eq have "cs = pre' @ sub @ post" by simp
      then show ?thesis by blast
    qed
  next
    assume "(\<exists>post. c # cs = sub @ post) \<or> (\<exists>pre post. cs = pre @ sub @ post)"
    then show "\<exists>pre post. c # cs = pre @ sub @ post"
    proof
      assume "\<exists>post. c # cs = sub @ post"
      then obtain post where "c # cs = [] @ sub @ post" by auto
      then show ?thesis by blast
    next
      assume "\<exists>pre post. cs = pre @ sub @ post"
      then obtain pre post where "c # cs = (c # pre) @ sub @ post" by auto
      then show ?thesis by blast
    qed
  qed
  ultimately show ?case using Cons.IH by simp
qed

lemma split_from_nonempty: "split_from sep acc s \<noteq> []"
  by (induction sep acc s rule: split_from.induct) auto

lemma split_from_no_separator:
  "\<not> str_includes s sep \<Longrightarrow> split_from sep acc s = [rev acc @ s]"
  by (induction s arbitrary: acc) auto

lemma split_from_separator:
  assumes "sep \<noteq> []" and "str_includes s sep"
  shows "1 < length (split_from sep acc s)
     \<and> (\<exists>pre. rev acc @ s = pre @ sep @ last (split_from sep acc s))
     \<and> \<not> str_includes (last (split_from sep acc s)) sep"
  using assms
proof (induction sep acc s rule: split_from.induct)
  case (1 sep acc)
  then show ?case by simp
next
  case (2 sep acc c cs)
  show ?case
  proof (cases "take (length sep) (c # cs) = sep")
    case True
    let ?rest = "drop (length sep) (c # cs)"
    have whole: "c # cs = sep @ ?rest"
      using True by (metis append_take_drop_id)
    have unfold: "split_from sep acc (c # cs) = rev acc # split_from sep [] ?rest"
      using True "2.prems"(1) by simp
    have nonempty: "split_from sep [] ?rest \<noteq> []"
      by (rule split_from_nonempty)
    show ?thesis
    proof (cases "str_includes ?rest sep")
      case False
      then have "split_from sep [] ?rest = [?rest]"
        by (simp add: split_from_no_separator)
      with unfold whole False show ?thesis by auto
    next
      case incl: True
      from "2.IH"(1) [OF _ "2.prems"(1) incl] True "2.prems"(1)
      have ih: "1 < length (split_from sep [] ?rest)
         \<and> (\<exists>pre. rev [] @ ?rest = pre @ sep @ last (split_from sep [] ?rest))
         \<and> \<not> str_includes (last (split_from sep [] ?rest)) sep"
        by simp
      then obtain pre where pre: "?rest = pre @ sep @ last (split_from sep [] ?rest)"
        by auto
      have "rev acc @ c # cs = (rev acc @ sep @ pre) @ sep @ last (split_from sep [] ?rest)"
        using whole pre by (metis append.assoc)
      with unfold nonempty ih show ?thesis
        by (metis One_nat_def last_ConsR length_Cons less_Suc_eq Suc_lessD Suc_less_eq)
    qed
  next
    case False
    with "2.prems" have incl: "str_includes cs sep" by simp
    have unfold: "split_from sep acc (c # cs) = split_from sep (c # acc) cs"
      using False by simp
    from "2.IH"(2) [OF _ "2.prems"(1) incl] False
    have "1 < length (split_from sep (c # acc) cs)
         \<and> (\<exists>pre. rev (c # acc) @ cs = pre @ sep @ last (split_from sep (c # acc) cs))
         \<and> \<not> str_includes (last (split_from sep (c # acc) cs)) sep"
      by simp
    with unfold show ?thesis by simp
  qed
qed

lemma split_last_part:
  assumes "sep \<noteq> []"
  shows "(str_includes s sep \<longrightarrow>
            1 < length (split s sep)
            \<and> (\<exists>pre. s = pre @ sep @ last (split s sep))
            \<and> \<not> str_includes (last (split s sep)) sep)
     \<and> (\<not> str_includes s sep \<longrightarrow> split s sep = [s])"
  using split_from_separator [OF assms, of s "[]"] split_from_no_separator [of s sep "[]"]
  by (auto simp: split_def)

lemma split_examples:
  "split ''Richmond / Antioch'' '' / '' = [''Richmond'', ''Antioch'']"
  "split ''SFO/Millbrae'' '' / '' = [''SFO/Millbrae'']"
  "split ''SFO/Millbrae'' ''/'' = [''SFO'', ''Millbrae'']"
  "split ''Richmond / Antioch'' ''/'' = [''Richmond '', '' Antioch'']"
  by (simp_all add: split_def)

section \<open>The direction filter\<close>

lemma lower_examples:
  "toLowerCase ''Richmond / Antioch'' = ''richmond / antioch''"
  "toLowerCase ''SFO/Millbrae'' = ''sfo/millbrae''"
  "toLowerCase ''Green-S'' = ''green-s''"
  "toLowerCase ''Yellow-S'' = ''yellow-s''"
  "toLowerCase ''EastBound'' = ''eastbound''"
  "toLowerCase ''eastbound'' = ''eastbound''"
  "toLowerCase ''WESTBOUND'' = ''westbound''"
  "toLowerCase ''westbound'' = ''westbound''"
  "toLowerCase ''northbound'' = ''northbound''"
  by code_simp+

lemma sfo_millbrae_not_eastbound:
  "\<not> str_includes ''sfo/millbrae'' ''antioch''" "\<not> str_includes ''sfo/millbrae'' ''berryessa''"
  "\<not> str_includes ''sfo/millbrae'' ''dublin''" "\<not> str_includes ''sfo/millbrae'' ''pittsburg''"
  by simp_all

text \<open>
  C6 (as stated): "eastbound" discards a prediction with headsign \<open>SFO/Millbrae\<close>. It
  fails for a prediction whose route name contains \<open>n\<close>: with route name \<open>Green-S\<close> and
  headsign \<open>SFO/Millbrae\<close> the filter keeps the prediction.
\<close>

theorem eastbound_keeps_sfo_millbrae:
  "headsign green_s_prediction = ''SFO/Millbrae''
   \<and> routeName green_s_prediction = ''Green-S''
   \<and> direction_filter ''eastbound'' green_s_prediction
   \<and> sortAndFilterTrips [green_s_prediction] (Some ''eastbound'') = [green_s_prediction]"
proof -
  have "direction_filter ''eastbound'' green_s_prediction"
    by (simp add: direction_filter_def green_s_prediction_def scenario_prediction_def
        lower_examples Let_def)
  then show ?thesis
    by (simp add: sortAndFilterTrips_def green_s_prediction_def scenario_prediction_def)
qed

text \<open>
  C6 (amended): the filter lowers the case of the direction, of the route name of the
  prediction and of its headsign. For "eastbound" it keeps a prediction exactly when the
  route name contains \<open>n\<close> or the headsign contains one of antioch, berryessa, dublin,
  pittsburg; for "westbound" exactly when the route name contains \<open>s\<close> or the headsign
  contains one of millbrae, sfo, daly city, richmond; for any other direction, an absent
  or empty one included, the list is the sorted list, nothing removed. "eastbound" keeps
  every prediction with headsign \<open>Richmond / Antioch\<close>, and discards one with headsign
  \<open>SFO/Millbrae\<close> exactly when its route name contains no \<open>n\<close>.
\<close>

theorem direction_filter_rule:
  "(toLowerCase d = ''eastbound'' \<longrightarrow>
      (direction_filter d t \<longleftrightarrow>
         str_includes (toLowerCase (routeName t)) ''n''
         \<or> (\<exists>k\<in>{''antioch'', ''berryessa'', ''dublin'', ''pittsburg''}.
               str_includes (toLowerCase (headsign t)) k)))
   \<and> (toLowerCase d = ''westbound'' \<longrightarrow>
      (direction_filter d t \<longleftrightarrow>
         str_includes (toLowerCase (routeName t)) ''s''
         \<or> (\<exists>k\<in>{''millbrae'', ''sfo'', ''daly city'', ''richmond''}.
               str_includes (toLowerCase (headsign t)) k)))
   \<and> (toLowerCase d \<noteq> ''eastbound'' \<and> toLowerCase d \<noteq> ''westbound'' \<longrightarrow>
        direction_filter d t
        \<and> sortAndFilterTrips ts (Some d) = sort_key estimatedArrival ts)
   \<and> sortAndFilterTrips ts None = sort_key estimatedArrival ts
   \<and> (d \<noteq> [] \<longrightarrow>
        sortAndFilterTrips ts (Some d) = filter (direction_filter d) (sort_key estimatedArrival ts))
   \<and> (toLowerCase d = toLowerCase d' \<and> toLowerCase (routeName t) = toLowerCase (routeName t')
        \<and> toLowerCase (headsign t) = toLowerCase (headsign t')
        \<longrightarrow> direction_filter d t = direction_filter d' t')
   \<and> (headsign t = ''Richmond / Antioch'' \<longrightarrow> direction_filter ''eastbound'' t)
   \<and> (headsign t = ''SFO/Millbrae'' \<longrightarrow>
        (direction_filter ''eastbound'' t \<longleftrightarrow> str_includes (toLowerCase (routeName t)) ''n''))"
proof -
  have east: "toLowerCase d = ''eastbound'' \<longrightarrow>
      (direction_filter d t \<longleftrightarrow>
         str_includes (toLowerCase (routeName t)) ''n''
         \<or> (\<exists>k\<in>{''antioch'', ''berryessa'', ''dublin'', ''pittsburg''}.
               str_includes (toLowerCase (headsign t)) k))"
    by (simp add: direction_filter_def Let_def)
  have west: "toLowerCase d = ''westbound'' \<longrightarrow>
      (direction_filter d t \<longleftrightarrow>
         str_includes (toLowerCase (routeName t)) ''s''
         \<or> (\<exists>k\<in>{''millbrae'', ''sfo'', ''daly city'', ''richmond''}.
               str_includes (toLowerCase (headsign t)) k))"
    by (simp add: direction_filter_def Let_def)
  have other_one: "toLowerCase d \<noteq> ''eastbound'' \<and> toLowerCase d \<noteq> ''westbound'' \<longrightarrow>
      direction_filter d u" for u
    by (simp add: direction_filter_def Let_def)
  have other: "toLowerCase d \<noteq> ''eastbound'' \<and> toLowerCase d \<noteq> ''westbound'' \<longrightarrow>
        direction_filter d t
        \<and> sortAndFilterTrips ts (Some d) = sort_key estimatedArrival ts"
    using other_one by (simp add: sortAndFilterTrips_def Let_def)
  have absent: "sortAndFilterTrips ts None = sort_key estimatedArrival ts"
    by (simp add: sortAndFilterTrips_def)
  have present: "d \<noteq> [] \<longrightarrow>
        sortAndFilterTrips ts (Some d) = filter (direction_filter d) (sort_key estimatedArrival ts)"
    by (simp add: sortAndFilterTrips_def)
  have insensitive: "toLowerCase d = toLowerCase d'
        \<and> toLowerCase (routeName t) = toLowerCase (routeName t')
        \<and> toLowerCase (headsign t) = toLowerCase (headsign t')
        \<longrightarrow> direction_filter d t = direction_filter d' t'"
    by (simp add: direction_filter_def Let_def)
  have antioch: "headsign t = ''Richmond / Antioch'' \<longrightarrow> direction_filter ''eastbound'' t"
    by (simp add: direction_filter_def Let_def lower_examples)
  have sfo: "headsign t = ''SFO/Millbrae'' \<longrightarrow>
        (direction_filter ''eastbound'' t \<longleftrightarrow> str_includes (toLowerCase (routeName t)) ''n'')"
    by (simp add: direction_filter_def Let_def lower_examples)
  from east west other absent present insensitive antioch sfo show ?thesis
    by blast
qed

theorem direction_filter_rule_witness:
  "direction_filter ''EastBound'' antioch_prediction
   \<and> \<not> direction_filter ''EastBound'' scenario_prediction
   \<and> direction_filter ''WESTBOUND'' scenario_prediction
   \<and> sortAndFilterTrips [later_prediction, scenario_prediction] (Some ''northbound'')
       = [scenario_prediction, later_prediction]"
proof -
  note rule_east = direction_filter_rule [of "''EastBound''" antioch_prediction "[]" "''eastbound''"
      antioch_prediction]
  note rule_sfo = direction_filter_rule [of "''EastBound''" scenario_prediction "[]" "''eastbound''"
      scenario_prediction]
  note rule_west = direction_filter_rule [of "''WESTBOUND''" scenario_prediction "[]" "''westbound''"
      scenario_prediction]
  note rule_other = direction_filter_rule [of "''northbound''" scenario_prediction
      "[later_prediction, scenario_prediction]" "''northbound''" scenario_prediction]
  have 1: "direction_filter ''EastBound'' antioch_prediction"
    using rule_east by (simp add: lower_examples antioch_prediction_def scenario_prediction_def)
  have 2: "\<not> direction_filter ''EastBound'' scenario_prediction"
    using rule_sfo by (simp add: lower_examples scenario_prediction_def)
  have 3: "direction_filter ''WESTBOUND'' scenario_prediction"
    using rule_west by (simp add: lower_examples scenario_prediction_def)
  have 4: "sortAndFilterTrips [later_prediction, scenario_prediction] (Some ''northbound'')
       = [scenario_prediction, later_prediction]"
    using rule_other by (simp add: lower_examples later_prediction_def scenario_prediction_def)
  from 1 2 3 4 show ?thesis by blast
qed

section \<open>The /next projection\<close>

lemma westbound_result:
  "getStopInfo loaded_service unordered_monitor scenario_clock ''M20-2'' (Some ''westbound'') =
     ([ReadTrips, ReadStatus, ReadAlerts, ReadStatus],
      Inr \<lparr>si_stop = montgomery_out, upcomingTrips = [scenario_prediction, later_prediction],
           alerts = [], warnings = [], lastUpdated = 1699999990000\<rparr>)"
proof -
  have keep: "direction_filter ''westbound'' scenario_prediction"
    "direction_filter ''westbound'' later_prediction"
    by (simp_all add: direction_filter_def Let_def lower_examples scenario_prediction_def
        later_prediction_def)
  have "getStopInfo loaded_service unordered_monitor scenario_clock ''M20-2'' (Some ''westbound'') =
     ([ReadTrips, ReadStatus, ReadAlerts, ReadStatus],
      Inr \<lparr>si_stop = montgomery_out,
           upcomingTrips = filter (direction_filter ''westbound'') [scenario_prediction, later_prediction],
           alerts = [], warnings = [], lastUpdated = 1699999990000\<rparr>)"
    by (simp add: scenario_defs transit_defs Let_def)
  with keep show ?thesis by simp
qed

lemma next_arrival_examples:
  "destination (next_arrival scenario_prediction) = ''SFO/Millbrae''"
  "destination (next_arrival antioch_prediction) = ''Antioch''"
  by (simp_all add: next_arrival_def scenario_prediction_def antioch_prediction_def split_examples)

text \<open>
  C9 (as stated): the destination label is the final \<open>/\<close>-delimited segment of the
  headsign. It fails on the code, which cuts the headsign at \<open> / \<close> (space, slash,
  space): for the headsign \<open>SFO/Millbrae\<close> the label is the whole headsign, not
  \<open>Millbrae\<close>, and for \<open>Richmond / Antioch\<close> it is \<open>Antioch\<close>, not \<open> Antioch\<close> with
  its leading space.
\<close>

theorem destination_is_not_slash_segment:
  "headsign scenario_prediction = ''SFO/Millbrae''
   \<and> destination (next_arrival scenario_prediction) = ''SFO/Millbrae''
   \<and> spec_destination (headsign scenario_prediction) = ''Millbrae''
   \<and> headsign antioch_prediction = ''Richmond / Antioch''
   \<and> destination (next_arrival antioch_prediction) = ''Antioch''
   \<and> spec_destination (headsign antioch_prediction) = '' Antioch''
   \<and> (\<exists>body. next_handler default_config loaded_service unordered_monitor scenario_clock westbound_query
          = Json body
        \<and> map destination (nextArrivals body) = [''SFO/Millbrae''])"
proof -
  have handler: "\<exists>body. next_handler default_config loaded_service unordered_monitor scenario_clock
        westbound_query = Json body
      \<and> map destination (nextArrivals body) = [''SFO/Millbrae'']"
    by (simp add: next_handler_def Let_def default_config_def westbound_query_def str_or_def
        next_limit_def slice0_def westbound_result next_arrival_examples)
  have heads: "headsign scenario_prediction = ''SFO/Millbrae''"
    "headsign antioch_prediction = ''Richmond / Antioch''"
    by (simp_all add: scenario_prediction_def antioch_prediction_def)
  have spec: "spec_destination (headsign scenario_prediction) = ''Millbrae''"
    "spec_destination (headsign antioch_prediction) = '' Antioch''"
    by (simp_all add: heads spec_destination_def split_examples)
  from handler heads spec next_arrival_examples show ?thesis
    by blast
qed

text \<open>
  C9 (amended): when \<open>getStopInfo\<close> returns and the limit \<open>N\<close> (the \<open>limit\<close> of the
  query, 4 when it is absent, zero or not a number) is positive, the handler answers with
  the projections of the first \<open>N\<close> predictions of the sorted list, in order. The label
  of an entry is \<open>Unknown\<close> for an empty headsign, the headsign itself when \<open> / \<close>
  (space, slash, space) does not occur in it, and otherwise the last part of the headsign
  cut at \<open> / \<close>: the headsign ends with \<open> / \<close> and the label, and \<open> / \<close> does not
  occur in the label. An entry is \<open>arriving\<close> exactly when its minutes until arrival
  are at most 1, and \<open>scheduled\<close> otherwise.
\<close>

theorem next_projection:
  assumes "snd (getStopInfo sds mon clk (str_or (q_stop q) (station_id cfg))
                 (Some (str_or (q_direction q) (station_direction cfg)))) = Inr info"
    and "0 < next_limit q"
  shows "(\<exists>body. next_handler cfg sds mon clk q = Json body
            \<and> nextArrivals body = map next_arrival (take (nat (next_limit q)) (upcomingTrips info))
            \<and> length (nextArrivals body) = min (nat (next_limit q)) (length (upcomingTrips info)))
     \<and> (\<forall>t. arr_minutesUntilArrival (next_arrival t) = minutesUntilArrival t
            \<and> (arr_status (next_arrival t) = ''arriving'' \<longleftrightarrow> minutesUntilArrival t \<le> 1)
            \<and> (arr_status (next_arrival t) = ''scheduled'' \<longleftrightarrow> \<not> minutesUntilArrival t \<le> 1))
     \<and> (\<forall>t. headsign t = [] \<longrightarrow> destination (next_arrival t) = ''Unknown'')
     \<and> (\<forall>t. headsign t \<noteq> [] \<and> \<not> str_includes (headsign t) '' / ''
            \<longrightarrow> destination (next_arrival t) = headsign t)
     \<and> (\<forall>t. str_includes (headsign t) '' / ''
            \<longrightarrow> destination (next_arrival t) = last (split (headsign t) '' / '')
                \<and> (\<exists>pre. headsign t = pre @ '' / '' @ destination (next_arrival t))
                \<and> \<not> str_includes (destination (next_arrival t)) '' / '')"
proof -
  have sep: "'' / '' \<noteq> []" by simp
  have body: "\<exists>body. next_handler cfg sds mon clk q = Json body
            \<and> nextArrivals body = map next_arrival (take (nat (next_limit q)) (upcomingTrips info))
            \<and> length (nextArrivals body) = min (nat (next_limit q)) (length (upcomingTrips info))"
    using assms by (simp add: next_handler_def Let_def slice0_def min_def)
  have status: "\<forall>t. arr_minutesUntilArrival (next_arrival t) = minutesUntilArrival t
            \<and> (arr_status (next_arrival t) = ''arriving'' \<longleftrightarrow> minutesUntilArrival t \<le> 1)
            \<and> (arr_status (next_arrival t) = ''scheduled'' \<longleftrightarrow> \<not> minutesUntilArrival t \<le> 1)"
    by (simp add: next_arrival_def)
  have unknown: "\<forall>t. headsign t = [] \<longrightarrow> destination (next_arrival t) = ''Unknown''"
    by (simp add: next_arrival_def)
  have whole: "\<forall>t. headsign t \<noteq> [] \<and> \<not> str_includes (headsign t) '' / ''
            \<longrightarrow> destination (next_arrival t) = headsign t"
    using split_last_part [OF sep] by (simp add: next_arrival_def Let_def)
  have part: "\<forall>t. str_includes (headsign t) '' / ''
            \<longrightarrow> destination (next_arrival t) = last (split (headsign t) '' / '')
                \<and> (\<exists>pre. headsign t = pre @ '' / '' @ destination (next_arrival t))
                \<and> \<not> str_includes (destination (next_arrival t)) '' / ''"
  proof (intro allI impI)
    fix t :: TripInfo
    assume incl: "str_includes (headsign t) '' / ''"
    then have ne: "headsign t \<noteq> []" by auto
    from split_last_part [OF sep, of "headsign t"] incl
    have parts: "1 < length (split (headsign t) '' / '')"
      and pre: "\<exists>pre. headsign t = pre @ '' / '' @ last (split (headsign t) '' / '')"
      and clean: "\<not> str_includes (last (split (headsign t) '' / '')) '' / ''"
      by blast+
    have "destination (next_arrival t) = last (split (headsign t) '' / '')"
      using ne parts by (simp add: next_arrival_def Let_def)
    with pre clean show "destination (next_arrival t) = last (split (headsign t) '' / '')
                \<and> (\<exists>pre. headsign t = pre @ '' / '' @ destination (next_arrival t))
                \<and> \<not> str_includes (destination (next_arrival t)) '' / ''"
      by simp
  qed
  from body status unknown whole part show ?thesis by blast
qed

theorem next_projection_witness:
  "\<exists>body. next_handler default_config loaded_service unordered_monitor scenario_clock westbound_query
       = Json body
     \<and> nextArrivals body = [next_arrival scenario_prediction]
     \<and> destination (next_arrival antioch_prediction) = ''Antioch''
     \<and> arr_status (next_arrival later_prediction) = ''scheduled''"
proof -
  have result: "snd (getStopInfo loaded_service unordered_monitor scenario_clock
        (str_or (q_stop westbound_query) (station_id default_config))
        (Some (str_or (q_direction westbound_query) (station_direction default_config))))
      = Inr \<lparr>si_stop = montgomery_out, upcomingTrips = [scenario_prediction, later_prediction],
           alerts = [], warnings = [], lastUpdated = 1699999990000\<rparr>"
    by (simp add: str_or_def westbound_query_def default_config_def westbound_result)
  have limit: "0 < next_limit westbound_query"
    by (simp add: next_limit_def westbound_query_def)
  have incl: "str_includes (headsign antioch_prediction) '' / ''"
    by (simp add: antioch_prediction_def)
  have late: "\<not> minutesUntilArrival later_prediction \<le> 1"
    by (simp add: later_prediction_def)
  note all = next_projection [OF result limit]
  from all have "destination (next_arrival antioch_prediction)
      = last (split (headsign antioch_prediction) '' / '')"
    using incl by blast
  then have dest: "destination (next_arrival antioch_prediction) = ''Antioch''"
    by (simp add: antioch_prediction_def split_examples)
  from all late have sched: "arr_status (next_arrival later_prediction) = ''scheduled''"
    by blast
  from all obtain body
    where "next_handler default_config loaded_service unordered_monitor scenario_clock westbound_query
        = Json body"
      and "nextArrivals body = map next_arrival (take (nat (next_limit westbound_query))
        (upcomingTrips \<lparr>si_stop = montgomery_out, upcomingTrips = [scenario_prediction, later_prediction],
           alerts = [], warnings = [], lastUpdated = 1699999990000\<rparr>))"
    by blast
  with dest sched show ?thesis
    by (simp add: next_limit_def westbound_query_def)
qed

end
